theory Spec2Isabelle
  imports Main "HOL-Library.Word"
begin

unbundle bit_operations_syntax

section \<open>Data model\<close>

text \<open>
  Byte strings are lists of 8-bit words. Heights, rounds and bitmaps are Go \<open>uint64\<close>,
  the step and the block version are \<open>uint8\<close>, the timestamp is \<open>int64\<close>: all are
  words, read with \<open>sint\<close> where the source compares signed values.
  Go errors are carried as their message.
\<close>

type_synonym byte = "8 word"
type_synonym bytes = "byte list"
type_synonym u8 = "8 word"
type_synonym u64 = "64 word"
type_synonym i64 = "64 word"
type_synonym error = string

text \<open>The outcome of a Go call that returns a value and an error, or panics.\<close>

datatype 'a result = Ok 'a | Err error | Panic error

section \<open>The reduction coordinator\<close>

text \<open>
  The consensus state of the reduction context, with the two channels the coordinator
  writes to. A channel is the list of the buffers sent on it, oldest first.
\<close>

record State =
  Round :: u64
  Step :: u8

record reduction_context =
  state :: State
  reductionVoteChan :: "bytes list"
  agreementVoteChan :: "bytes list"

text \<open>
  The handler and the committee of the context are interfaces whose implementations
  are not part of the sources: they are parameters. An event is \<open>None\<close> for the nil
  interface value; a slice of events is \<open>None\<close> for the nil slice. Each handler
  method gets the content of the buffer it writes to and returns the new content.
  \<open>Quorum\<close> is a Go \<open>int\<close>.
\<close>

type_synonym 'ev events = "'ev option list option"

record 'ev Handler =
  EmbedVoteHash :: "'ev option \<Rightarrow> bytes \<Rightarrow> error + bytes"
  MarshalHeader :: "bytes \<Rightarrow> State \<Rightarrow> error + bytes"
  MarshalVoteSet :: "bytes \<Rightarrow> 'ev events \<Rightarrow> error + bytes"
  Quorum :: "64 word"

text \<open>\<open>len(events)\<close>: the nil slice has length 0.\<close>

definition len :: "'ev events \<Rightarrow> nat" where
  "len events = (case events of None \<Rightarrow> 0 | Some evs \<Rightarrow> length evs)"

text \<open>
  \<open>encodeEv\<close>: a nil slice is replaced by the slice holding the nil event; the buffer
  starts with 32 zero bytes; \<open>events[0]\<close> on an empty slice that is not nil panics.
\<close>

definition encodeEv :: "'ev Handler \<Rightarrow> 'ev events \<Rightarrow> bytes result" where
  "encodeEv h events =
    (case (case events of None \<Rightarrow> [None] | Some evs \<Rightarrow> evs) of
       [] \<Rightarrow> Panic ''index out of range''
     | ev # _ \<Rightarrow>
        (case EmbedVoteHash h ev (replicate 32 0) of
           Inl e \<Rightarrow> Err e
         | Inr hash \<Rightarrow> Ok hash))"

text \<open>
  \<open>isReductionSuccessful\<close>: the buffers are pointers, \<open>None\<close> for nil. The three
  conditions are computed before they are combined, so \<open>Bytes()\<close> on a nil buffer
  panics. The comparison with twice the quorum is in signed 64-bit arithmetic.
\<close>

definition isReductionSuccessful ::
    "'ev Handler \<Rightarrow> bytes option \<Rightarrow> bytes option \<Rightarrow> 'ev events \<Rightarrow> bool result" where
  "isReductionSuccessful h hash1 hash2 events =
    (let bothNotNil = (hash1 \<noteq> None \<and> hash2 \<noteq> None) in
     case hash1 of
       None \<Rightarrow> Panic ''nil pointer dereference''
     | Some b1 \<Rightarrow>
        (case hash2 of
           None \<Rightarrow> Panic ''nil pointer dereference''
         | Some b2 \<Rightarrow>
            (let identicalResults = (b1 = b2);
                 voteSetCorrectLength = (sint (Quorum h * 2) \<le> int (len events))
             in Ok (bothNotNil \<and> identicalResults \<and> voteSetCorrectLength))))"

text \<open>
  \<open>begin\<close> of the coordinator, given what the two blocking \<open>fetch\<close> calls return. \<open>MarshalHeader\<close>
  rewrites the buffer of the first hash before it is sent and compared.
\<close>

definition coordinator_begin :: "'ev Handler \<Rightarrow> reduction_context \<Rightarrow> 'ev events \<Rightarrow> 'ev events \<Rightarrow> unit result \<times> reduction_context" where
  "coordinator_begin h ctx events eventsSecondStep =
    (let ctx1 = ctx\<lparr>state := (state ctx)\<lparr>Step := Step (state ctx) + 1\<rparr>\<rparr> in
     case encodeEv h events of
       Panic e \<Rightarrow> (Panic e, ctx1)
     | Err e \<Rightarrow> (Err e, ctx1)
     | Ok b1 \<Rightarrow>
        (case MarshalHeader h b1 (state ctx1) of
           Inl e \<Rightarrow> (Err e, ctx1)
         | Inr hash1 \<Rightarrow>
            (let ctx2 = ctx1\<lparr>reductionVoteChan := reductionVoteChan ctx1 @ [hash1]\<rparr> in
             case encodeEv h eventsSecondStep of
               Panic e \<Rightarrow> (Panic e, ctx2)
             | Err e \<Rightarrow> (Err e, ctx2)
             | Ok hash2 \<Rightarrow>
                (case isReductionSuccessful h (Some hash1) (Some hash2) events of
                   Panic e \<Rightarrow> (Panic e, ctx2)
                 | Err e \<Rightarrow> (Err e, ctx2)
                 | Ok False \<Rightarrow>
                     (Ok (), ctx2\<lparr>state := (state ctx2)\<lparr>Step := Step (state ctx2) + 1\<rparr>\<rparr>)
                 | Ok True \<Rightarrow>
                    (case MarshalVoteSet h hash2 events of
                       Inl e \<Rightarrow> (Err e, ctx2)
                     | Inr b2 \<Rightarrow>
                        (case MarshalHeader h b2 (state ctx2) of
                           Inl e \<Rightarrow> (Err e, ctx2)
                         | Inr b3 \<Rightarrow>
                            (Ok (), ctx2\<lparr>agreementVoteChan := agreementVoteChan ctx2 @ [b3],
                                         state := (state ctx2)\<lparr>Step := Step (state ctx2) + 1\<rparr>\<rparr>)))))))"

text \<open>
  The success condition as the specification words it: both phases agree on the same
  hash, the hash is not the empty one (all zeroes), and the votes of both phases
  together reach twice the quorum.
\<close>

definition spec_reductionSucceeds :: "bytes \<Rightarrow> bytes \<Rightarrow> nat \<Rightarrow> nat \<Rightarrow> int \<Rightarrow> bool" where
  "spec_reductionSucceeds hash1 hash2 votes1 votes2 quorum =
    (hash1 = hash2 \<and> hash1 \<noteq> replicate (length hash1) 0 \<and> 2 * quorum \<le> int (votes1 + votes2))"

text \<open>
  A handler that embeds the vote hash carried by the event after the 32 zero bytes and
  leaves the buffers as they are otherwise; the quorum is 1.
\<close>

definition handler0 :: "bytes Handler" where
  "handler0 =
    \<lparr>EmbedVoteHash = (\<lambda>ev buf. Inr (buf @ (case ev of None \<Rightarrow> [] | Some v \<Rightarrow> v))),
     MarshalHeader = (\<lambda>buf st. Inr buf),
     MarshalVoteSet = (\<lambda>buf evs. Inr buf),
     Quorum = 1\<rparr>"

definition ctx0 :: reduction_context where
  "ctx0 = \<lparr>state = \<lparr>Round = 1, Step = 1\<rparr>, reductionVoteChan = [], agreementVoteChan = []\<rparr>"

text \<open>The same handler, whose \<open>MarshalHeader\<close> puts the step in front of the buffer.\<close>

definition handler1 :: "bytes Handler" where
  "handler1 = handler0\<lparr>MarshalHeader := (\<lambda>buf st. Inr (Step st # buf))\<rparr>"

section \<open>Blocks and certificates\<close>

text \<open>
  Modelled from the spec: \<open>user.Provisioners\<close> is not part of the sources. Section 3
  gives each member one or more stakes (amount, start height, end height); the chain reads
  the set of keys \<open>Set\<close> and the members with their BLS key and stakes.
  \<open>NewProvisioners\<close> is the set without members.
\<close>

record Stake =
  Amount :: u64
  StartHeight :: u64
  EndHeight :: u64

record Member =
  PublicKeyBLS :: bytes
  Stakes :: "Stake list"

record Provisioners =
  Set :: "bytes list"
  Members :: "Member list"

definition NewProvisioners :: Provisioners where
  "NewProvisioners = \<lparr>Set = [], Members = []\<rparr>"

text \<open>\<open>consensus.RoundUpdate\<close>, with the fields that \<open>getRoundUpdate\<close> fills.\<close>

record RoundUpdate =
  Round :: u64
  P :: Provisioners
  Seed :: bytes
  Hash :: bytes

text \<open>\<open>block.Certificate\<close>, with the fields that \<open>MarshalCertificate\<close> writes.\<close>

record Certificate =
  StepOneBatchedSig :: bytes
  StepTwoBatchedSig :: bytes
  Step :: u8
  StepOneCommittee :: u64
  StepTwoCommittee :: u64

text \<open>
  \<open>block.Header\<close>. The legacy chain names the previous hash \<open>PrevBlock\<close>; it is the
  field \<open>PrevBlockHash\<close> here.
\<close>

record Header =
  Version :: u8
  Height :: u64
  Timestamp :: i64
  PrevBlockHash :: bytes
  Seed :: bytes
  TxRoot :: bytes
  Certificate :: Certificate
  Hash :: bytes

text \<open>
  A transaction of a block. The legacy block holds Merkle payloads, which
  \<open>verifyBlock\<close> casts to transactions: \<open>Tx\<close> is a payload that implements the
  transaction interface, \<open>Payload\<close> one that does not, \<open>NilTx\<close> the nil interface
  value.
\<close>

datatype tx = Tx bytes | Payload bytes | NilTx

record Block =
  Header :: Header
  Txs :: "tx list"

section \<open>The wire encoding\<close>

text \<open>
  Modelled from the spec: the package \<open>encoding\<close> is not part of the sources. The wire
  format is little-endian; a 256-bit value is 32 bytes and a BLS signature 33 bytes, with
  no length prefix; VarInt follows the Bitcoin convention (prefix 0xFD, 0xFE or 0xFF for
  a value of 2, 4 or 8 bytes). A buffer is the list of its unread bytes: a write appends,
  a read takes from the front and fails, taking nothing, when too few bytes are left.
\<close>

fun le_bytes :: "nat \<Rightarrow> u64 \<Rightarrow> bytes" where
  "le_bytes 0 w = []"
| "le_bytes (Suc n) w = ucast w # le_bytes n (drop_bit 8 w)"

fun from_le :: "bytes \<Rightarrow> u64" where
  "from_le [] = 0"
| "from_le (b # bs) = ucast b OR push_bit 8 (from_le bs)"

definition EOF :: error where
  "EOF = ''EOF''"

definition readN :: "nat \<Rightarrow> bytes \<Rightarrow> error + (bytes \<times> bytes)" where
  "readN n r = (if length r < n then Inl EOF else Inr (take n r, drop n r))"

definition WriteUint8 :: "bytes \<Rightarrow> u8 \<Rightarrow> error option \<times> bytes" where
  "WriteUint8 r v = (None, r @ [v])"

definition ReadUint8 :: "bytes \<Rightarrow> error + (u8 \<times> bytes)" where
  "ReadUint8 r = (case r of [] \<Rightarrow> Inl EOF | v # rest \<Rightarrow> Inr (v, rest))"

definition WriteUint64LE :: "bytes \<Rightarrow> u64 \<Rightarrow> error option \<times> bytes" where
  "WriteUint64LE r v = (None, r @ le_bytes 8 v)"

definition ReadUint64LE :: "bytes \<Rightarrow> error + (u64 \<times> bytes)" where
  "ReadUint64LE r = (case readN 8 r of Inl e \<Rightarrow> Inl e | Inr (b, rest) \<Rightarrow> Inr (from_le b, rest))"

definition Write256 :: "bytes \<Rightarrow> bytes \<Rightarrow> error option \<times> bytes" where
  "Write256 r b = (if length b \<noteq> 32 then (Some ''b is not proper size - expected 32 bytes'', r)
                   else (None, r @ b))"

definition Read256 :: "bytes \<Rightarrow> error + (bytes \<times> bytes)" where
  "Read256 r = readN 32 r"

definition WriteBLS :: "bytes \<Rightarrow> bytes \<Rightarrow> error option \<times> bytes" where
  "WriteBLS r b = (if length b \<noteq> 33 then (Some ''b is not proper size - expected 33 bytes'', r)
                   else (None, r @ b))"

definition ReadBLS :: "bytes \<Rightarrow> error + (bytes \<times> bytes)" where
  "ReadBLS r = readN 33 r"

definition ReadVarInt :: "bytes \<Rightarrow> error + (u64 \<times> bytes)" where
  "ReadVarInt r =
    (case r of
       [] \<Rightarrow> Inl EOF
     | d # rest \<Rightarrow>
        if d = 0xFF then (case readN 8 rest of Inl e \<Rightarrow> Inl e | Inr (b, rest') \<Rightarrow> Inr (from_le b, rest'))
        else if d = 0xFE then (case readN 4 rest of Inl e \<Rightarrow> Inl e | Inr (b, rest') \<Rightarrow> Inr (from_le b, rest'))
        else if d = 0xFD then (case readN 2 rest of Inl e \<Rightarrow> Inl e | Inr (b, rest') \<Rightarrow> Inr (from_le b, rest'))
        else Inr (ucast d, rest))"

text \<open>
  \<open>MarshalCertificate\<close>: the error and the buffer after the call. A failing write
  ends the marshalling with what was written so far.
\<close>

definition MarshalCertificate :: "bytes \<Rightarrow> Certificate \<Rightarrow> error option \<times> bytes" where
  "MarshalCertificate r c =
    (case WriteBLS r (StepOneBatchedSig c) of
       (Some e, r1) \<Rightarrow> (Some e, r1)
     | (None, r1) \<Rightarrow>
    (case WriteBLS r1 (StepTwoBatchedSig c) of
       (Some e, r2) \<Rightarrow> (Some e, r2)
     | (None, r2) \<Rightarrow>
    (case WriteUint8 r2 (Step c) of
       (Some e, r3) \<Rightarrow> (Some e, r3)
     | (None, r3) \<Rightarrow>
    (case WriteUint64LE r3 (StepOneCommittee c) of
       (Some e, r4) \<Rightarrow> (Some e, r4)
     | (None, r4) \<Rightarrow>
    (case WriteUint64LE r4 (StepTwoCommittee c) of
       (Some e, r5) \<Rightarrow> (Some e, r5)
     | (None, r5) \<Rightarrow> (None, r5))))))"

text \<open>
  \<open>UnmarshalCertificate\<close>: the error, the buffer and the certificate after the call.
  Each signature field is set to 33 fresh zero bytes before it is read, so a failing read
  leaves it so.
\<close>

definition UnmarshalCertificate :: "bytes \<Rightarrow> Certificate \<Rightarrow> error option \<times> bytes \<times> Certificate" where
  "UnmarshalCertificate r c =
    (let c1 = c\<lparr>StepOneBatchedSig := replicate 33 0\<rparr> in
     case ReadBLS r of
       Inl e \<Rightarrow> (Some e, r, c1)
     | Inr (s1, r1) \<Rightarrow>
    (let c2 = c1\<lparr>StepOneBatchedSig := s1, StepTwoBatchedSig := replicate 33 0\<rparr> in
     case ReadBLS r1 of
       Inl e \<Rightarrow> (Some e, r1, c2)
     | Inr (s2, r2) \<Rightarrow>
    (let c3 = c2\<lparr>StepTwoBatchedSig := s2\<rparr> in
     case ReadUint8 r2 of
       Inl e \<Rightarrow> (Some e, r2, c3)
     | Inr (st, r3) \<Rightarrow>
    (let c4 = c3\<lparr>Step := st\<rparr> in
     case ReadUint64LE r3 of
       Inl e \<Rightarrow> (Some e, r3, c4)
     | Inr (b1, r4) \<Rightarrow>
    (let c5 = c4\<lparr>StepOneCommittee := b1\<rparr> in
     case ReadUint64LE r4 of
       Inl e \<Rightarrow> (Some e, r4, c5)
     | Inr (b2, r5) \<Rightarrow> (None, r5, c5\<lparr>StepTwoCommittee := b2\<rparr>))))))"

section \<open>The legacy chain: block verification\<close>

text \<open>
  The collaborators of the legacy chain that are not part of the repository's sources:
  the Merkle root computation \<open>SetRoot\<close>, the coinbase check, the transaction
  verification, the database and the block encoder.
\<close>

record LegacyEnv =
  calcRoot :: "tx list \<Rightarrow> error + bytes"
  checkMultiCoinbases :: "tx list \<Rightarrow> error option"
  verifyTX :: "u64 \<Rightarrow> u64 \<Rightarrow> bytes \<Rightarrow> error option"
  fetchBlockExists :: "Block list \<Rightarrow> bytes \<Rightarrow> error option"
  storeBlock :: "Block list \<Rightarrow> Block \<Rightarrow> error + Block list"
  encodeBlock :: "Block \<Rightarrow> error + bytes"

definition ErrBlockNotFound :: error where
  "ErrBlockNotFound = ''block not found''"

record LegacyChain =
  PrevBlock :: Block
  db :: "Block list"
  mempoolRemoved :: "Block list"
  gossiped :: "bytes list"

text \<open>
  \<open>checkBlockHeader\<close>: the checks in the order of the source. The height is compared
  in \<open>uint64\<close> arithmetic, the timestamp as a signed value. The header of a block is
  held by pointer, so the root that \<open>SetRoot\<close> writes stays in the block of the
  caller: the block is returned with the error.
\<close>

definition checkBlockHeader :: "LegacyEnv \<Rightarrow> Block \<Rightarrow> Block \<Rightarrow> error option \<times> Block" where
  "checkBlockHeader env prev blk =
    (if Version (Header blk) > 0 then (Some ''unsupported block version'', blk)
     else if PrevBlockHash (Header blk) \<noteq> Hash (Header prev)
       then (Some ''Previous block hash does not equal the previous hash in the current block'', blk)
     else if Height (Header blk) \<noteq> Height (Header prev) + 1
       then (Some ''current block height is not one plus the previous block height'', blk)
     else if sint (Timestamp (Header blk)) \<le> sint (Timestamp (Header prev))
       then (Some ''current timestamp is less than the previous timestamp'', blk)
     else (case calcRoot env (Txs blk) of
             Inl e \<Rightarrow> (Some ''could not calculate the merkle tree root for this header'', blk)
           | Inr root \<Rightarrow>
               (if TxRoot (Header blk) \<noteq> root then Some ''merkle root mismatch'' else None,
                blk\<lparr>Header := (Header blk)\<lparr>TxRoot := root\<rparr>\<rparr>)))"

text \<open>The loop of \<open>verifyBlock\<close> over the transactions, with the index \<open>i\<close>.\<close>

fun verifyTxs :: "LegacyEnv \<Rightarrow> u64 \<Rightarrow> nat \<Rightarrow> tx list \<Rightarrow> error option" where
  "verifyTxs env ts i [] = None"
| "verifyTxs env ts i (Tx t # rest) =
    (case verifyTX env (of_nat i) ts t of
       Some e \<Rightarrow> Some e
     | None \<Rightarrow> verifyTxs env ts (Suc i) rest)"
| "verifyTxs env ts i (_ # rest) = Some ''tx does not implement the transaction interface''"

text \<open>
  \<open>verifyBlock\<close>: when \<open>checkBlockHeader\<close> returns an error, the source returns
  \<open>nil\<close>.
\<close>

definition verifyBlock :: "LegacyEnv \<Rightarrow> LegacyChain \<Rightarrow> Block \<Rightarrow> error option \<times> Block" where
  "verifyBlock env c blk =
    (case checkBlockHeader env (PrevBlock c) blk of
       (Some e, blk') \<Rightarrow> (None, blk')
     | (None, blk') \<Rightarrow>
        (case checkMultiCoinbases env (Txs blk') of
           Some e \<Rightarrow> (Some e, blk')
         | None \<Rightarrow> (verifyTxs env (Timestamp (Header blk')) 0 (Txs blk'), blk')))"

text \<open>\<open>propagateBlock\<close> of the legacy chain: the encoded block goes to the gossip topic.\<close>

definition propagateBlock :: "LegacyEnv \<Rightarrow> LegacyChain \<Rightarrow> Block \<Rightarrow> error option \<times> LegacyChain" where
  "propagateBlock env c blk =
    (case encodeBlock env blk of
       Inl e \<Rightarrow> (Some e, c)
     | Inr buf \<Rightarrow> (None, c\<lparr>gossiped := gossiped c @ [buf]\<rparr>))"

text \<open>
  \<open>AcceptBlock\<close> of the legacy chain (the file of \<open>verifyBlock\<close>). The first
  component is the returned error, \<open>None\<close> for \<open>nil\<close>.
\<close>

definition legacyAcceptBlock :: "LegacyEnv \<Rightarrow> LegacyChain \<Rightarrow> Block \<Rightarrow> error option \<times> LegacyChain" where
  "legacyAcceptBlock env c blk =
    (case fetchBlockExists env (db c) (Hash (Header blk)) of
       None \<Rightarrow> (Some ''block already exists'', c)
     | Some e \<Rightarrow>
        if e \<noteq> ErrBlockNotFound then (Some e, c)
        else (case verifyBlock env c blk of
                (Some e', blk') \<Rightarrow> (Some e', c)
              | (None, blk') \<Rightarrow>
                 (case storeBlock env (db c) blk' of
                    Inl e' \<Rightarrow> (Some e', c)
                  | Inr db' \<Rightarrow>
                     propagateBlock env
                       (c\<lparr>db := db', PrevBlock := blk',
                          mempoolRemoved := mempoolRemoved c @ [blk']\<rparr>) blk')))"

text \<open>
  A legacy chain at height 5 and a block that breaks the three header rules at once:
  height 7, a previous hash that is not the tip's hash, and the tip's own timestamp.
\<close>

definition legacyEnv0 :: LegacyEnv where
  "legacyEnv0 =
    \<lparr>calcRoot = (\<lambda>txs. Inr []),
     checkMultiCoinbases = (\<lambda>txs. None),
     verifyTX = (\<lambda>i ts t. None),
     fetchBlockExists = (\<lambda>d h. if h \<in> set (map (\<lambda>b. Hash (Header b)) d) then None
                                 else Some ErrBlockNotFound),
     storeBlock = (\<lambda>d b. Inr (d @ [b])),
     encodeBlock = (\<lambda>b. Inr (Hash (Header b)))\<rparr>"

definition cert0 :: Certificate where
  "cert0 = \<lparr>StepOneBatchedSig = replicate 33 0, StepTwoBatchedSig = replicate 33 0,
            Step = 0, StepOneCommittee = 0, StepTwoCommittee = 0\<rparr>"

definition legacyTip0 :: Block where
  "legacyTip0 =
    \<lparr>Header = \<lparr>Version = 0, Height = 5, Timestamp = 100, PrevBlockHash = [0], Seed = [],
                TxRoot = [], Certificate = cert0, Hash = [1]\<rparr>,
     Txs = []\<rparr>"

definition legacyChain0 :: LegacyChain where
  "legacyChain0 = \<lparr>PrevBlock = legacyTip0, db = [legacyTip0], mempoolRemoved = [], gossiped = []\<rparr>"

definition badBlock0 :: Block where
  "badBlock0 =
    \<lparr>Header = \<lparr>Version = 0, Height = 7, Timestamp = 100, PrevBlockHash = [9], Seed = [],
                TxRoot = [], Certificate = cert0, Hash = [2]\<rparr>,
     Txs = []\<rparr>"

section \<open>Unmarshalling a block\<close>

text \<open>
  \<open>UnmarshalHeader\<close>: the error, the buffer and the header after the call. The
  timestamp is read as \<open>uint64\<close> and converted to \<open>int64\<close>, which keeps the bits.
  The byte fields are set to fresh zero bytes before they are read.
\<close>

definition UnmarshalHeader :: "bytes \<Rightarrow> Header \<Rightarrow> error option \<times> bytes \<times> Header" where
  "UnmarshalHeader r h =
    (case ReadUint8 r of
       Inl e \<Rightarrow> (Some e, r, h)
     | Inr (v, r1) \<Rightarrow>
    (let h1 = h\<lparr>Version := v\<rparr> in
     case ReadUint64LE r1 of
       Inl e \<Rightarrow> (Some e, r1, h1)
     | Inr (ht, r2) \<Rightarrow>
    (let h2 = h1\<lparr>Height := ht\<rparr> in
     case ReadUint64LE r2 of
       Inl e \<Rightarrow> (Some e, r2, h2)
     | Inr (timestamp, r3) \<Rightarrow>
    (let h3 = h2\<lparr>Timestamp := timestamp, PrevBlockHash := replicate 32 0\<rparr> in
     case Read256 r3 of
       Inl e \<Rightarrow> (Some e, r3, h3)
     | Inr (ph, r4) \<Rightarrow>
    (let h4 = h3\<lparr>PrevBlockHash := ph, Seed := replicate 33 0\<rparr> in
     case ReadBLS r4 of
       Inl e \<Rightarrow> (Some e, r4, h4)
     | Inr (sd, r5) \<Rightarrow>
    (let h5 = h4\<lparr>Seed := sd, TxRoot := replicate 32 0\<rparr> in
     case Read256 r5 of
       Inl e \<Rightarrow> (Some e, r5, h5)
     | Inr (tr, r6) \<Rightarrow>
    (let h6 = h5\<lparr>TxRoot := tr\<rparr> in
     case UnmarshalCertificate r6 (Certificate h6) of
       (Some e, r7, cert) \<Rightarrow> (Some e, r7, h6\<lparr>Certificate := cert\<rparr>)
     | (None, r7, cert) \<Rightarrow>
    (let h7 = h6\<lparr>Certificate := cert, Hash := replicate 32 0\<rparr> in
     case Read256 r7 of
       Inl e \<Rightarrow> (Some e, r7, h7)
     | Inr (hs, r8) \<Rightarrow> (None, r8, h7\<lparr>Hash := hs\<rparr>)))))))))"

text \<open>
  The type \<open>unmarfunc\<close>: a transaction decoder gets the buffer and the transaction to
  fill, and returns the error and the buffer after the call. The decoder
  \<open>transactions.Unmarshal\<close> is not part of the sources: it is a parameter.
\<close>

type_synonym unmarfunc = "bytes \<Rightarrow> tx \<Rightarrow> error option \<times> bytes"

definition MaxInt32 :: nat where
  "MaxInt32 = 2147483647"

text \<open>
  The loop of \<open>unmarshalBlockTxs\<close> over the fresh slice: the decoder is called on each
  element in turn and the element is stored back, up to the first error. The result
  holds the error, the buffer, the slice and the number of calls of the decoder.
\<close>

fun unmarshalTxsLoop :: "unmarfunc \<Rightarrow> bytes \<Rightarrow> tx list \<Rightarrow> error option \<times> bytes \<times> tx list \<times> nat" where
  "unmarshalTxsLoop unmarshalTx r [] = (None, r, [], 0)"
| "unmarshalTxsLoop unmarshalTx r (c # cs) =
    (case unmarshalTx r c of
       (Some e, r') \<Rightarrow> (Some e, r', c # cs, 1)
     | (None, r') \<Rightarrow>
        (case unmarshalTxsLoop unmarshalTx r' cs of
           (e, r'', cs', k) \<Rightarrow> (e, r'', c # cs', Suc k)))"

text \<open>
  What the buffer \<open>r\<close> holds after \<open>i\<close> calls of the decoder on nil transactions,
  each call starting from what the call before it left: the \<open>i\<close>-fold iterate of one
  call. It says what reading \<open>i\<close> transactions is, apart from the loop.
\<close>

definition bufferAfter :: "unmarfunc \<Rightarrow> nat \<Rightarrow> bytes \<Rightarrow> bytes" where
  "bufferAfter unmarshalTx i r = ((\<lambda>x. snd (unmarshalTx x NilTx)) ^^ i) r"

text \<open>
  \<open>unmarshalBlockTxs\<close>: the error, the buffer, the block and the number of calls of the
  transaction decoder. \<open>make\<close> gives a slice of nil interface values.
\<close>

definition unmarshalBlockTxs :: "bytes \<Rightarrow> Block \<Rightarrow> unmarfunc \<Rightarrow> error option \<times> bytes \<times> Block \<times> nat" where
  "unmarshalBlockTxs r b unmarshalTx =
    (case UnmarshalHeader r (Header b) of
       (Some e, r1, h) \<Rightarrow> (Some e, r1, b\<lparr>Header := h\<rparr>, 0)
     | (None, r1, h) \<Rightarrow>
        (let b1 = b\<lparr>Header := h\<rparr> in
         case ReadVarInt r1 of
           Inl e \<Rightarrow> (Some e, r1, b1, 0)
         | Inr (lTxs, r2) \<Rightarrow>
            if unat lTxs > MaxInt32 div 8 then (Some ''block tx count too large'', r2, b1, 0)
            else (case unmarshalTxsLoop unmarshalTx r2 (replicate (unat lTxs) NilTx) of
                    (e, r3, txs, k) \<Rightarrow> (e, r3, b1\<lparr>Txs := txs\<rparr>, k))))"

text \<open>\<open>UnmarshalBlock\<close>, with the transaction decoder \<open>transactions.Unmarshal\<close>.\<close>

definition UnmarshalBlock :: "unmarfunc \<Rightarrow> bytes \<Rightarrow> Block \<Rightarrow> error option \<times> bytes \<times> Block \<times> nat" where
  "UnmarshalBlock transactions_Unmarshal r b = unmarshalBlockTxs r b transactions_Unmarshal"

text \<open>
  The encoding of a header at height 4, a block to decode into, and a decoder that takes
  one byte for each transaction.
\<close>

definition header0 :: Header where
  "header0 =
    \<lparr>Version = 0, Height = 4, Timestamp = 7, PrevBlockHash = replicate 32 1,
     Seed = replicate 33 2, TxRoot = replicate 32 3, Certificate = cert0,
     Hash = replicate 32 5\<rparr>"

definition headerBytes0 :: bytes where
  "headerBytes0 =
    [0] @ le_bytes 8 4 @ le_bytes 8 7 @ replicate 32 1 @ replicate 33 2 @ replicate 32 3
    @ (replicate 33 0 @ replicate 33 0 @ [0] @ le_bytes 8 0 @ le_bytes 8 0) @ replicate 32 5"

definition block0 :: Block where
  "block0 = \<lparr>Header = header0\<lparr>Height := 9\<rparr>, Txs = [Tx [1]]\<rparr>"

definition oneByteTx :: unmarfunc where
  "oneByteTx r c = (case r of [] \<Rightarrow> (Some EOF, r) | _ # rest \<Rightarrow> (None, rest))"

section \<open>The chain\<close>

text \<open>
  Modelled from the spec: \<open>block.EmptyCertificate\<close> is not part of the sources. The
  empty certificate has two signatures of 33 zero bytes, step 0 and empty bitmaps.
\<close>

definition EmptyCertificate :: Certificate where
  "EmptyCertificate =
    \<lparr>StepOneBatchedSig = replicate 33 0, StepTwoBatchedSig = replicate 33 0,
     Step = 0, StepOneCommittee = 0, StepTwoCommittee = 0\<rparr>"

text \<open>The topics the chain uses, and the messages built by \<open>message.New\<close>.\<close>

datatype topic =
    StopConsensus | AcceptedBlock | Gossip | Inv | RoundUpdateTopic | BlockTopic
  | Initialization | ClearWalletDatabase | GetCandidate | VerifyCandidateBlock
  | GetLastCertificate | GetLastCommittee

datatype payload =
    EMPTY | NilPayload | BlockPayload Block | RoundUpdatePayload RoundUpdate
  | BufferPayload bytes

record Message =
  Category :: topic
  MsgPayload :: payload

definition message_New :: "topic \<Rightarrow> payload \<Rightarrow> Message" where
  "message_New t pl = \<lparr>Category = t, MsgPayload = pl\<rparr>"

text \<open>
  The chain works through collaborators it holds by reference: the event bus, the RPC
  bus, the loader, the verifier, the executor, the provider of the tip and the sync
  counter. Every call on one of them is recorded, in order, in the trace of the chain.
  Log lines are left out.
\<close>

datatype call =
    Publish topic Message
  | Subscribe topic
  | Register topic
  | Call topic
  | VerifierSanityCheckBlock Block Block
  | VerifierPerformSanityCheck u64 u64 u64
  | ExecutorGetProvisioners
  | ExecutorExecuteStateTransition "tx list" u64
  | LoaderLoadTip
  | LoaderClear
  | LoaderAppend Block
  | TipSet Block
  | CounterDecrement
  | CapiSave u64 Provisioners

text \<open>
  The collaborators are interfaces or packages that are not part of the sources, so what
  they answer is a parameter. The state of the loader has the type \<open>'l\<close> and the state
  of the sync counter the type \<open>'c\<close>. \<open>InvEncode\<close> is the encoding of an inventory
  message with the single item \<open>(InvTypeBlock, hash)\<close>.
\<close>

record ('l, 'c) ChainEnv =
  SanityCheckBlock :: "Block \<Rightarrow> Block \<Rightarrow> error option"
  PerformSanityCheck :: "'l \<Rightarrow> u64 \<Rightarrow> u64 \<Rightarrow> u64 \<Rightarrow> error option"
  SanityCheckHeight :: u64
  GetProvisioners :: "error + Provisioners"
  ExecuteStateTransition :: "tx list \<Rightarrow> u64 \<Rightarrow> error + Provisioners"
  CheckBlockCertificate :: "Provisioners \<Rightarrow> Block \<Rightarrow> error option"
  LoadTip :: "'l \<Rightarrow> error + Block"
  Clear :: "'l \<Rightarrow> error option \<times> 'l"
  Append :: "'l \<Rightarrow> Block \<Rightarrow> error option \<times> 'l"
  IsSyncing :: "'c \<Rightarrow> bool"
  Decrement :: "'c \<Rightarrow> 'c"
  InvEncode :: "bytes \<Rightarrow> error + bytes"
  Prepend :: "topic \<Rightarrow> bytes \<Rightarrow> error + bytes"
  rpcRegister :: "topic \<Rightarrow> error option"
  rpcCall :: "topic \<Rightarrow> error option"
  rpcGetCandidate :: "bytes \<Rightarrow> error + Block"
  newLastBlockProvider :: "Block \<Rightarrow> error option"
  API_Enabled :: bool
  Genesis_Legacy :: bool
  setupBidValues :: "error option"
  reconstructCommittee :: "Provisioners \<Rightarrow> Block \<Rightarrow> error + Provisioners"

text \<open>
  The \<open>Chain\<close> struct, with the state of the loader and of the counter it points to.
  \<open>lastCertificate\<close> is a pointer, \<open>None\<close> for nil. \<open>spawned\<close> holds the calls
  handed to goroutines, which run at some later time.
\<close>

record ('l, 'c) Chain =
  p :: Provisioners
  counter :: 'c
  loader :: 'l
  tip :: Block
  lastCertificate :: "Certificate option"
  lastCommittee :: "bytes list"
  highestSeen :: u64
  trace :: "call list"
  spawned :: "call list"

definition record_call :: "call \<Rightarrow> ('l, 'c) Chain \<Rightarrow> ('l, 'c) Chain" where
  "record_call x c = c\<lparr>trace := trace c @ [x]\<rparr>"


text \<open>\<open>advertiseBlock\<close>: a failing encoder makes it panic; it never returns an error.\<close>

definition advertiseBlock :: "('l, 'c) ChainEnv \<Rightarrow> ('l, 'c) Chain \<Rightarrow> Block \<Rightarrow> unit result \<times> ('l, 'c) Chain" where
  "advertiseBlock env c b =
    (case InvEncode env (Hash (Header b)) of
       Inl e \<Rightarrow> (Panic e, c)
     | Inr buf \<Rightarrow>
        (case Prepend env Inv buf of
           Inl e \<Rightarrow> (Panic e, c)
         | Inr buf' \<Rightarrow>
            (Ok (), record_call (Publish Gossip (message_New Inv (BufferPayload buf'))) c)))"

text \<open>
  \<open>AcceptBlock\<close> of the chain. \<open>Ok ()\<close> stands for the result \<open>nil\<close>. The goroutine
  that saves the provisioners to the API database is recorded as spawned.
\<close>

definition AcceptBlock :: "('l, 'c) ChainEnv \<Rightarrow> ('l, 'c) Chain \<Rightarrow> Block \<Rightarrow> unit result \<times> ('l, 'c) Chain" where
  "AcceptBlock env c blk =
    (let prevBlock = tip c;
         c1 = record_call (VerifierSanityCheckBlock prevBlock blk) c in
     case SanityCheckBlock env prevBlock blk of
       Some e \<Rightarrow> (Err e, c1)
     | None \<Rightarrow>
    (let c2 = record_call ExecutorGetProvisioners c1 in
     case GetProvisioners env of
       Inl e \<Rightarrow> (Err e, c2)
     | Inr provisioners \<Rightarrow>
    (let c3 = c2\<lparr>p := provisioners\<rparr> in
     case CheckBlockCertificate env (p c3) blk of
       Some e \<Rightarrow> (Err e, c3)
     | None \<Rightarrow>
    (let c4 = record_call (ExecutorExecuteStateTransition (Txs blk) (Height (Header blk))) c3 in
     case ExecuteStateTransition env (Txs blk) (Height (Header blk)) of
       Inl e \<Rightarrow> (Err e, c4)
     | Inr provisioners' \<Rightarrow>
    (let c5 = record_call (TipSet blk) (c4\<lparr>p := provisioners', tip := blk\<rparr>);
         c6 = (if API_Enabled env
               then c5\<lparr>spawned := spawned c5 @ [CapiSave (Height (Header blk)) (p c5)]\<rparr>
               else c5);
         c7 = record_call (LoaderAppend blk) c6 in
     case Append env (loader c7) blk of
       (Some e, l') \<Rightarrow> (Err e, c7\<lparr>loader := l'\<rparr>)
     | (None, l') \<Rightarrow>
    (case advertiseBlock env (c7\<lparr>loader := l'\<rparr>) blk of
       (Panic e, c8) \<Rightarrow> (Panic e, c8)
     | (Err e, c8) \<Rightarrow> (Err e, c8)
     | (Ok u, c8) \<Rightarrow>
    (let c9 = record_call (Publish AcceptedBlock (message_New AcceptedBlock (BlockPayload blk))) c8;
         c10 = record_call CounterDecrement (c9\<lparr>counter := Decrement env (counter c9)\<rparr>)
     in (Ok (), c10))))))))"

text \<open>\<open>getRoundUpdate\<close>: \<open>Copy\<close> of the provisioners gives an equal value.\<close>

definition getRoundUpdate :: "('l, 'c) Chain \<Rightarrow> RoundUpdate" where
  "getRoundUpdate c =
    (let hdr = Header (tip c) in
     \<lparr>Round = Height hdr + 1, P = p c, Seed = Header.Seed hdr, Hash = Header.Hash hdr\<rparr>)"

definition roundUpdateMsg :: "RoundUpdate \<Rightarrow> Message" where
  "roundUpdateMsg ru = message_New RoundUpdateTopic (RoundUpdatePayload ru)"

definition sendRoundUpdate :: "('l, 'c) Chain \<Rightarrow> RoundUpdate \<Rightarrow> unit result \<times> ('l, 'c) Chain" where
  "sendRoundUpdate c ru = (Ok (), record_call (Publish RoundUpdateTopic (roundUpdateMsg ru)) c)"

definition onInitialization :: "('l, 'c) Chain \<Rightarrow> Message \<Rightarrow> unit result \<times> ('l, 'c) Chain" where
  "onInitialization c m = sendRoundUpdate c (getRoundUpdate c)"


text \<open>
  \<open>handleCertificateMessage\<close>, for a certificate message with its hash, certificate
  and committee: the winning candidate is requested on the RPC bus and accepted.
\<close>

record certMsg =
  hash :: bytes
  cert :: Certificate
  committee :: "bytes list"


text \<open>
  \<open>New\<close>, for a loader in state \<open>l\<close> and a counter in state \<open>cnt\<close>. The three
  topics are registered on the RPC bus, the tip is loaded, and for a tip at height 0 the
  last certificate is the empty one; with the legacy genesis the bid values and the
  committee are set up too. The two collectors and the registration on the gRPC server,
  whose code is not part of the sources, are left out.
\<close>

definition New :: "('l, 'c) ChainEnv \<Rightarrow> 'l \<Rightarrow> 'c \<Rightarrow> error + ('l, 'c) Chain" where
  "New env l cnt =
    (case rpcRegister env VerifyCandidateBlock of Some e \<Rightarrow> Inl e | None \<Rightarrow>
    (case rpcRegister env GetLastCertificate of Some e \<Rightarrow> Inl e | None \<Rightarrow>
    (case rpcRegister env GetLastCommittee of Some e \<Rightarrow> Inl e | None \<Rightarrow>
    (case LoadTip env l of Inl e \<Rightarrow> Inl e | Inr prevBlock \<Rightarrow>
    (let calls = [Register VerifyCandidateBlock, Register GetLastCertificate,
                  Register GetLastCommittee, LoaderLoadTip];
         finish = (\<lambda>lc ps.
            case newLastBlockProvider env prevBlock of
              Some e \<Rightarrow> Inl e
            | None \<Rightarrow>
               Inr \<lparr>p = ps, counter = cnt, loader = l, tip = prevBlock, lastCertificate = lc,
                    lastCommittee = [], highestSeen = 0,
                    trace = calls @ [Subscribe BlockTopic, Subscribe Initialization],
                    spawned = []\<rparr>)
     in if Height (Header prevBlock) = 0
        then (if Genesis_Legacy env
              then (case setupBidValues env of
                      Some e \<Rightarrow> Inl e
                    | None \<Rightarrow>
                       (case reconstructCommittee env NewProvisioners prevBlock of
                          Inl e \<Rightarrow> Inl e
                        | Inr ps \<Rightarrow> finish (Some EmptyCertificate) ps))
              else finish (Some EmptyCertificate) NewProvisioners)
        else finish None NewProvisioners)))))"

definition resetState :: "('l, 'c) Chain \<Rightarrow> ('l, 'c) Chain" where
  "resetState c = c\<lparr>p := NewProvisioners, lastCertificate := Some EmptyCertificate\<rparr>"

text \<open>
  \<open>RebuildChain\<close>: \<open>Ok\<close> carries the text of the response, \<open>Err\<close> the returned
  error, \<open>Panic\<close> the error given to \<open>log.Panic\<close>.
\<close>

definition RebuildChain :: "('l, 'c) ChainEnv \<Rightarrow> ('l, 'c) Chain \<Rightarrow> string result \<times> ('l, 'c) Chain" where
  "RebuildChain env c =
    (let c1 = record_call (Publish StopConsensus (message_New StopConsensus NilPayload)) c;
         c2 = record_call LoaderClear c1 in
     case Clear env (loader c2) of
       (Some e, l') \<Rightarrow> (Err e, c2\<lparr>loader := l'\<rparr>)
     | (None, l') \<Rightarrow>
    (let c3 = record_call LoaderLoadTip (c2\<lparr>loader := l'\<rparr>) in
     case LoadTip env (loader c3) of
       Inl tipErr \<Rightarrow> (Panic tipErr, c3)
     | Inr t \<Rightarrow>
    (let c4 = record_call (TipSet t) (c3\<lparr>tip := t\<rparr>);
         c5 = record_call (VerifierPerformSanityCheck 0 (SanityCheckHeight env) 0) c4 in
     case PerformSanityCheck env (loader c5) 0 (SanityCheckHeight env) 0 of
       Some unrecoverable \<Rightarrow> (Panic unrecoverable, c5)
     | None \<Rightarrow>
    (let c6 = resetState c5;
         c7 = record_call (Call ClearWalletDatabase) c6 in
     case rpcCall env ClearWalletDatabase of
       Some e \<Rightarrow> (Panic e, c7)
     | None \<Rightarrow> (Ok ''Blockchain deleted. Syncing from scratch...'', c7)))))"

text \<open>
  A chain at height 10 over a loader that keeps the list of the stored blocks and a
  counter that holds the number of blocks still to sync. The verifier is the header
  check of the legacy chain, the certificate check rejects step 0, and the executor
  answers with fixed provisioner sets.
\<close>

definition provisioners1 :: Provisioners where
  "provisioners1 =
    \<lparr>Set = [[1]],
     Members = [\<lparr>PublicKeyBLS = [1], Stakes = [\<lparr>Amount = 500, StartHeight = 0, EndHeight = 1000\<rparr>]\<rparr>]\<rparr>"

definition provisioners2 :: Provisioners where
  "provisioners2 =
    \<lparr>Set = [[1], [2]],
     Members = [\<lparr>PublicKeyBLS = [1], Stakes = [\<lparr>Amount = 500, StartHeight = 0, EndHeight = 1000\<rparr>]\<rparr>,
                \<lparr>PublicKeyBLS = [2], Stakes = [\<lparr>Amount = 300, StartHeight = 11, EndHeight = 2000\<rparr>]\<rparr>]\<rparr>"

definition genesis0 :: Block where
  "genesis0 =
    \<lparr>Header = \<lparr>Version = 0, Height = 0, Timestamp = 1, PrevBlockHash = [], Seed = [3],
                TxRoot = [], Certificate = EmptyCertificate, Hash = [4]\<rparr>,
     Txs = []\<rparr>"

definition tip10 :: Block where
  "tip10 =
    \<lparr>Header = \<lparr>Version = 0, Height = 10, Timestamp = 100, PrevBlockHash = [0], Seed = [5],
                TxRoot = [], Certificate = cert0, Hash = [1]\<rparr>,
     Txs = []\<rparr>"

definition block11 :: Block where
  "block11 =
    \<lparr>Header = \<lparr>Version = 0, Height = 11, Timestamp = 101, PrevBlockHash = [1], Seed = [6],
                TxRoot = [], Certificate = cert0\<lparr>Step := 2\<rparr>, Hash = [2]\<rparr>,
     Txs = []\<rparr>"

definition chainEnv0 :: "(Block list, nat) ChainEnv" where
  "chainEnv0 =
    \<lparr>SanityCheckBlock = (\<lambda>prev blk. fst (checkBlockHeader legacyEnv0 prev blk)),
     PerformSanityCheck = (\<lambda>l startAt firstBlocks lastBlocks. None),
     SanityCheckHeight = 10,
     GetProvisioners = Inr provisioners1,
     ExecuteStateTransition = (\<lambda>txs h. Inr provisioners2),
     CheckBlockCertificate = (\<lambda>ps blk. if Step (Certificate (Header blk)) = 0
                                          then Some ''invalid certificate'' else None),
     LoadTip = (\<lambda>l. case l of [] \<Rightarrow> Inr genesis0 | _ \<Rightarrow> Inr (last l)),
     Clear = (\<lambda>l. (None, [])),
     Append = (\<lambda>l b. (None, l @ [b])),
     IsSyncing = (\<lambda>n. 0 < n),
     Decrement = (\<lambda>n. n - 1),
     InvEncode = (\<lambda>h. Inr (1 # h)),
     Prepend = (\<lambda>t buf. Inr (7 # buf)),
     rpcRegister = (\<lambda>t. None),
     rpcCall = (\<lambda>t. None),
     rpcGetCandidate = (\<lambda>h. Inl ''candidate not found''),
     newLastBlockProvider = (\<lambda>b. None),
     API_Enabled = False,
     Genesis_Legacy = False,
     setupBidValues = None,
     reconstructCommittee = (\<lambda>ps b. Inr ps)\<rparr>"

definition chain0 :: "(Block list, nat) Chain" where
  "chain0 =
    \<lparr>p = NewProvisioners, counter = 0, loader = [tip10], tip = tip10, lastCertificate = None,
     lastCommittee = [], highestSeen = 0, trace = [], spawned = []\<rparr>"

text \<open>
  Blocks for height 11 that fail one step each: one with the timestamp of the tip, one
  whose certificate has step 0.
\<close>

definition staleBlock11 :: Block where
  "staleBlock11 = block11\<lparr>Header := (Header block11)\<lparr>Timestamp := 100\<rparr>\<rparr>"

definition uncertifiedBlock11 :: Block where
  "uncertifiedBlock11 = block11\<lparr>Header := (Header block11)\<lparr>Certificate := cert0\<rparr>\<rparr>"

section \<open>Properties of the legacy chain\<close>

text \<open>
  C1. Every accepted block has the parent's height plus one, the parent's hash as its
  previous hash and a later timestamp than the parent. The legacy \<open>AcceptBlock\<close> breaks
  this: \<open>verifyBlock\<close> returns \<open>nil\<close> when \<open>checkBlockHeader\<close> fails, so the block
  above, which breaks all three rules, is accepted and becomes the tip.
\<close>

theorem legacyAcceptBlock_accepts_bad_header:
  "fst (legacyAcceptBlock legacyEnv0 legacyChain0 badBlock0) = None
   \<and> PrevBlock (snd (legacyAcceptBlock legacyEnv0 legacyChain0 badBlock0)) = badBlock0
   \<and> db (snd (legacyAcceptBlock legacyEnv0 legacyChain0 badBlock0)) = [legacyTip0, badBlock0]
   \<and> Height (Header badBlock0) \<noteq> Height (Header (PrevBlock legacyChain0)) + 1
   \<and> PrevBlockHash (Header badBlock0) \<noteq> Hash (Header (PrevBlock legacyChain0))
   \<and> \<not> sint (Timestamp (Header badBlock0)) > sint (Timestamp (Header (PrevBlock legacyChain0)))"
  by (simp add: legacyAcceptBlock_def verifyBlock_def checkBlockHeader_def propagateBlock_def
      legacyEnv0_def legacyChain0_def badBlock0_def legacyTip0_def ErrBlockNotFound_def)

section \<open>Properties of the reduction coordinator\<close>

lemma hash7_not_empty: "replicate 32 0 @ [7 :: byte] \<noteq> replicate 33 0"
proof
  assume "replicate 32 0 @ [7 :: byte] = replicate 33 0"
  then have "last (replicate 32 0 @ [7 :: byte]) = last (replicate 33 0)"
    by (rule arg_cong)
  then show False
    by simp
qed

text \<open>
  C2. The coordinator reports success exactly when both phases give the same non-empty
  hash and the votes of both phases together reach twice the quorum. The code computes
  three conditions of these names and misses the stated one in each; three runs with
  quorum 1 show it.
  \<^item> One vote for the same non-empty hash in each phase: the stated condition holds (two
    votes in total), yet no agreement message is sent, since only the events of the first
    fetch are counted.
  \<^item> Two votes for the empty hash in phase 1 and a timeout in phase 2: the stated
    condition fails (the hash is all zeroes), yet an agreement message is sent, since
    only the buffer pointers are tested and they are never nil.
  \<^item> Two votes for the same non-empty hash in each phase, with a handler whose
    \<open>MarshalHeader\<close> writes a header: the stated condition holds, yet no agreement
    message is sent, since the first hash is compared after the header was written to it.
\<close>

theorem coordinator_begin_misses_success_condition:
  "encodeEv handler0 (Some [Some [7]]) = Ok (replicate 32 0 @ [7])
   \<and> spec_reductionSucceeds (replicate 32 0 @ [7]) (replicate 32 0 @ [7]) 1 1 1
   \<and> coordinator_begin handler0 ctx0 (Some [Some [7]]) (Some [Some [7]])
       = (Ok (), ctx0\<lparr>state := \<lparr>State.Round = 1, State.Step = 3\<rparr>,
                      reductionVoteChan := [replicate 32 0 @ [7]]\<rparr>)
   \<and> encodeEv handler0 (Some [Some [], Some []]) = Ok (replicate 32 0)
   \<and> encodeEv handler0 None = Ok (replicate 32 0)
   \<and> \<not> spec_reductionSucceeds (replicate 32 0) (replicate 32 0) 2 0 1
   \<and> coordinator_begin handler0 ctx0 (Some [Some [], Some []]) None
       = (Ok (), ctx0\<lparr>state := \<lparr>State.Round = 1, State.Step = 3\<rparr>,
                      reductionVoteChan := [replicate 32 0],
                      agreementVoteChan := [replicate 32 0]\<rparr>)
   \<and> encodeEv handler1 (Some [Some [7], Some [7]]) = Ok (replicate 32 0 @ [7])
   \<and> spec_reductionSucceeds (replicate 32 0 @ [7]) (replicate 32 0 @ [7]) 2 2 1
   \<and> coordinator_begin handler1 ctx0 (Some [Some [7], Some [7]]) (Some [Some [7], Some [7]])
       = (Ok (), ctx0\<lparr>state := \<lparr>State.Round = 1, State.Step = 3\<rparr>,
                      reductionVoteChan := [2 # replicate 32 0 @ [7]]\<rparr>)"
  using hash7_not_empty
  by (simp add: coordinator_begin_def encodeEv_def isReductionSuccessful_def len_def
      spec_reductionSucceeds_def handler0_def handler1_def ctx0_def)

section \<open>Properties of the wire encoding\<close>

lemma take_bit_split: "take_bit (m + n) (w :: 'a::len word) = take_bit m w OR push_bit m (take_bit n (drop_bit m w))"
  by (rule bit_eqI) (auto simp: bit_simps)
lemma ucast_byte: "(ucast (ucast (w :: 64 word) :: 8 word) :: 64 word) = take_bit 8 w"
  by (rule bit_eqI) (auto simp: bit_simps)
lemma from_le_le_bytes: "from_le (le_bytes n w) = take_bit (8 * n) w"
proof (induction n arbitrary: w)
  case 0 show ?case by simp
next
  case (Suc n)
  have "from_le (le_bytes (Suc n) w) = take_bit 8 w OR push_bit 8 (take_bit (8 * n) (drop_bit 8 w))"
    by (simp add: Suc.IH ucast_byte)
  also have "\<dots> = take_bit (8 + 8 * n) w" by (rule take_bit_split [symmetric])
  finally show ?case by simp
qed
lemma from_le_le_bytes8: "from_le (le_bytes 8 w) = w"
  by (simp add: from_le_le_bytes take_bit_word_eq_self)
lemma length_le_bytes: "length (le_bytes n w) = n"
  by (induction n arbitrary: w) simp_all

lemma readN_append: "length a = n \<Longrightarrow> readN n (a @ rest) = Inr (a, rest)"
  by (simp add: readN_def)

lemma ReadUint64LE_le_bytes: "ReadUint64LE (le_bytes 8 w @ rest) = Inr (w, rest)"
  by (simp add: ReadUint64LE_def readN_append length_le_bytes from_le_le_bytes8)

lemma MarshalCertificate_ok:
  assumes "length (StepOneBatchedSig c) = 33" and "length (StepTwoBatchedSig c) = 33"
  shows "MarshalCertificate r c =
     (None, r @ StepOneBatchedSig c @ StepTwoBatchedSig c @ [Step c]
              @ le_bytes 8 (StepOneCommittee c) @ le_bytes 8 (StepTwoCommittee c))"
  using assms
  by (simp add: MarshalCertificate_def WriteBLS_def WriteUint8_def WriteUint64LE_def)

lemma UnmarshalCertificate_ok:
  assumes "length s1 = 33" and "length s2 = 33"
  shows "UnmarshalCertificate (s1 @ s2 @ [st] @ le_bytes 8 b1 @ le_bytes 8 b2 @ rest) c0 =
     (None, rest, c0\<lparr>StepOneBatchedSig := s1, StepTwoBatchedSig := s2, Step := st,
                     StepOneCommittee := b1, StepTwoCommittee := b2\<rparr>)"
  using assms
  by (simp add: UnmarshalCertificate_def ReadBLS_def readN_append ReadUint8_def
      ReadUint64LE_le_bytes)

text \<open>
  C9. For a certificate whose two batched signatures are 33 bytes long,
  \<open>MarshalCertificate\<close> succeeds and appends, in this order, the first signature, the
  second signature, the step and the two committee bitmaps; \<open>UnmarshalCertificate\<close> on
  what it wrote, whatever follows in the buffer and whatever the target held before,
  succeeds, leaves what follows unread and yields the original certificate.
\<close>

theorem certificate_roundtrip:
  fixes c c0 :: Certificate
  assumes "length (StepOneBatchedSig c) = 33" and "length (StepTwoBatchedSig c) = 33"
  shows "MarshalCertificate r c =
     (None, r @ StepOneBatchedSig c @ StepTwoBatchedSig c @ [Step c]
              @ le_bytes 8 (StepOneCommittee c) @ le_bytes 8 (StepTwoCommittee c))
   \<and> UnmarshalCertificate (snd (MarshalCertificate [] c) @ rest) c0 = (None, rest, c)"
proof -
  have "UnmarshalCertificate (snd (MarshalCertificate [] c) @ rest) c0 =
     (None, rest, c0\<lparr>StepOneBatchedSig := StepOneBatchedSig c,
        StepTwoBatchedSig := StepTwoBatchedSig c, Step := Step c,
        StepOneCommittee := StepOneCommittee c, StepTwoCommittee := StepTwoCommittee c\<rparr>)"
    using UnmarshalCertificate_ok [OF assms] by (simp add: MarshalCertificate_ok [OF assms])
  moreover have "c0\<lparr>StepOneBatchedSig := StepOneBatchedSig c,
        StepTwoBatchedSig := StepTwoBatchedSig c, Step := Step c,
        StepOneCommittee := StepOneCommittee c, StepTwoCommittee := StepTwoCommittee c\<rparr> = c"
    by simp
  ultimately show ?thesis
    by (simp add: MarshalCertificate_ok [OF assms])
qed

theorem certificate_roundtrip_witness:
  "length (StepOneBatchedSig cert0) = 33 \<and> length (StepTwoBatchedSig cert0) = 33
   \<and> UnmarshalCertificate (snd (MarshalCertificate [] cert0) @ [1, 2])
        (cert0\<lparr>Step := 9\<rparr>) = (None, [1, 2], cert0)"
proof -
  have a: "length (StepOneBatchedSig cert0) = 33" by (simp add: cert0_def)
  have b: "length (StepTwoBatchedSig cert0) = 33" by (simp add: cert0_def)
  from certificate_roundtrip [OF a b, of "[]" "[1, 2]" "cert0\<lparr>Step := 9\<rparr>"] a b
  show ?thesis by blast
qed

lemma ReadUint8_Cons: "ReadUint8 (v # rest) = Inr (v, rest)"
  by (simp add: ReadUint8_def)

lemma UnmarshalHeader_ok:
  assumes "length ph = 32" and "length sd = 33" and "length tr = 32" and "length hs = 32"
    and "length s1 = 33" and "length s2 = 33"
  shows "UnmarshalHeader ([v] @ le_bytes 8 ht @ le_bytes 8 ts @ ph @ sd @ tr
            @ (s1 @ s2 @ [st] @ le_bytes 8 b1 @ le_bytes 8 b2) @ hs @ rest) h =
     (None, rest,
      h\<lparr>Version := v, Height := ht, Timestamp := ts, PrevBlockHash := ph, Seed := sd,
        TxRoot := tr,
        Certificate := (Certificate h)\<lparr>StepOneBatchedSig := s1, StepTwoBatchedSig := s2,
           Step := st, StepOneCommittee := b1, StepTwoCommittee := b2\<rparr>,
        Hash := hs\<rparr>)"
  using assms UnmarshalCertificate_ok [of s1 s2 st b1 b2 "hs @ rest" "Certificate h"]
  by (simp add: UnmarshalHeader_def ReadUint8_Cons ReadUint64LE_le_bytes Read256_def
      ReadBLS_def readN_append)

lemma bufferAfter_0: "bufferAfter f 0 r = r"
  by (simp add: bufferAfter_def)

lemma bufferAfter_Suc: "bufferAfter f (Suc i) r = bufferAfter f i (snd (f r NilTx))"
  by (simp add: bufferAfter_def funpow_Suc_right del: funpow.simps)

lemma unmarshalTxsLoop_all_decoded:
  "(\<forall>i<n. fst (f (bufferAfter f i r) NilTx) = None) \<Longrightarrow>
     unmarshalTxsLoop f r (replicate n NilTx) = (None, bufferAfter f n r, replicate n NilTx, n)"
proof (induction n arbitrary: r)
  case 0
  then show ?case by (simp add: bufferAfter_0)
next
  case (Suc n)
  from Suc.prems have "fst (f (bufferAfter f 0 r) NilTx) = None" by blast
  then obtain r' where f0: "f r NilTx = (None, r')"
    by (cases "f r NilTx") (simp add: bufferAfter_0)
  then have r': "snd (f r NilTx) = r'" by simp
  have "\<forall>i<n. fst (f (bufferAfter f i (snd (f r NilTx))) NilTx) = None"
  proof (intro allI impI)
    fix i assume "i < n"
    then have "Suc i < Suc n" by simp
    with Suc.prems have "fst (f (bufferAfter f (Suc i) r) NilTx) = None" by blast
    then show "fst (f (bufferAfter f i (snd (f r NilTx))) NilTx) = None"
      by (simp add: bufferAfter_Suc)
  qed
  from Suc.IH [OF this] f0 r' show ?case
    by (simp add: bufferAfter_Suc)
qed

lemma unmarshalTxsLoop_first_failure:
  "j < n \<Longrightarrow> (\<forall>i<j. fst (f (bufferAfter f i r) NilTx) = None) \<Longrightarrow>
   fst (f (bufferAfter f j r) NilTx) = Some e \<Longrightarrow>
     unmarshalTxsLoop f r (replicate n NilTx) = (Some e, bufferAfter f (Suc j) r, replicate n NilTx, Suc j)"
proof (induction j arbitrary: n r)
  case 0
  then obtain m where n: "n = Suc m" by (cases n) auto
  from 0 obtain r' where "f r NilTx = (Some e, r')"
    by (cases "f r NilTx") (simp add: bufferAfter_0)
  then show ?case
    by (simp add: n bufferAfter_Suc bufferAfter_0)
next
  case (Suc j)
  then obtain m where n: "n = Suc m" and jm: "j < m" by (cases n) auto
  from Suc.prems have "fst (f (bufferAfter f 0 r) NilTx) = None" by blast
  then obtain r' where f0: "f r NilTx = (None, r')"
    by (cases "f r NilTx") (simp add: bufferAfter_0)
  then have r': "snd (f r NilTx) = r'" by simp
  have ok: "\<forall>i<j. fst (f (bufferAfter f i (snd (f r NilTx))) NilTx) = None"
  proof (intro allI impI)
    fix i assume "i < j"
    then have "Suc i < Suc j" by simp
    with Suc.prems have "fst (f (bufferAfter f (Suc i) r) NilTx) = None" by blast
    then show "fst (f (bufferAfter f i (snd (f r NilTx))) NilTx) = None"
      by (simp add: bufferAfter_Suc)
  qed
  from Suc.prems have bad: "fst (f (bufferAfter f j (snd (f r NilTx))) NilTx) = Some e"
    by (simp add: bufferAfter_Suc)
  from Suc.IH [OF jm ok bad] f0 r' show ?case
    by (simp add: n bufferAfter_Suc)
qed

text \<open>
  C10. When the header decodes and the transaction count is read, a count above
  \<open>MaxInt32 / 8\<close> makes \<open>unmarshalBlockTxs\<close> return the error \<open>block tx count too
  large\<close> with the transaction list of the block untouched and no call of the decoder.
  For a count \<open>n\<close> at or below the bound the block gets a transaction list of length
  \<open>n\<close> and the decoder is run on the buffer once for each transaction, each call
  starting where the call before it stopped: when all \<open>n\<close> calls succeed the result
  is \<open>nil\<close> after exactly \<open>n\<close> calls, with the buffer as \<open>n\<close> calls leave it; when
  call \<open>j + 1\<close> is the first to fail, its error is returned after exactly \<open>j + 1\<close>
  calls, with the buffer as these leave it.
\<close>

theorem unmarshalBlockTxs_count_bound:
  assumes "UnmarshalHeader r (Header b) = (None, r1, h)" and "ReadVarInt r1 = Inr (lTxs, r2)"
  shows "(unat lTxs > MaxInt32 div 8 \<longrightarrow>
            unmarshalBlockTxs r b f = (Some ''block tx count too large'', r2, b\<lparr>Header := h\<rparr>, 0))
       \<and> (unat lTxs \<le> MaxInt32 div 8
            \<and> (\<forall>i < unat lTxs. fst (f (bufferAfter f i r2) NilTx) = None) \<longrightarrow>
            unmarshalBlockTxs r b f
              = (None, bufferAfter f (unat lTxs) r2,
                 b\<lparr>Header := h, Txs := replicate (unat lTxs) NilTx\<rparr>, unat lTxs))
       \<and> (unat lTxs \<le> MaxInt32 div 8 \<and> j < unat lTxs
            \<and> (\<forall>i < j. fst (f (bufferAfter f i r2) NilTx) = None)
            \<and> fst (f (bufferAfter f j r2) NilTx) = Some e \<longrightarrow>
            unmarshalBlockTxs r b f
              = (Some e, bufferAfter f (Suc j) r2,
                 b\<lparr>Header := h, Txs := replicate (unat lTxs) NilTx\<rparr>, Suc j))"
proof (intro conjI impI)
  assume "unat lTxs > MaxInt32 div 8"
  with assms show "unmarshalBlockTxs r b f = (Some ''block tx count too large'', r2, b\<lparr>Header := h\<rparr>, 0)"
    by (simp add: unmarshalBlockTxs_def)
next
  assume a: "unat lTxs \<le> MaxInt32 div 8
            \<and> (\<forall>i < unat lTxs. fst (f (bufferAfter f i r2) NilTx) = None)"
  then have "unmarshalTxsLoop f r2 (replicate (unat lTxs) NilTx)
      = (None, bufferAfter f (unat lTxs) r2, replicate (unat lTxs) NilTx, unat lTxs)"
    by (simp add: unmarshalTxsLoop_all_decoded)
  with assms a show "unmarshalBlockTxs r b f
              = (None, bufferAfter f (unat lTxs) r2,
                 b\<lparr>Header := h, Txs := replicate (unat lTxs) NilTx\<rparr>, unat lTxs)"
    by (simp add: unmarshalBlockTxs_def)
next
  assume a: "unat lTxs \<le> MaxInt32 div 8 \<and> j < unat lTxs
            \<and> (\<forall>i < j. fst (f (bufferAfter f i r2) NilTx) = None)
            \<and> fst (f (bufferAfter f j r2) NilTx) = Some e"
  then have "unmarshalTxsLoop f r2 (replicate (unat lTxs) NilTx)
      = (Some e, bufferAfter f (Suc j) r2, replicate (unat lTxs) NilTx, Suc j)"
    by (simp add: unmarshalTxsLoop_first_failure)
  with assms a show "unmarshalBlockTxs r b f
              = (Some e, bufferAfter f (Suc j) r2,
                 b\<lparr>Header := h, Txs := replicate (unat lTxs) NilTx\<rparr>, Suc j)"
    by (simp add: unmarshalBlockTxs_def)
qed

lemma header0_decodes: "UnmarshalHeader (headerBytes0 @ rest) (Header block0) = (None, rest, header0)"
  unfolding headerBytes0_def
  using UnmarshalHeader_ok [of "replicate 32 1" "replicate 33 2" "replicate 32 3" "replicate 32 5"
      "replicate 33 0" "replicate 33 0" 0 4 7 0 0 0 rest "Header block0"]
  by (simp add: block0_def header0_def cert0_def)

lemma varint_small: "ReadVarInt ([2] @ rest) = Inr (2, rest)"
  by (simp add: ReadVarInt_def)

lemma varint_large: "ReadVarInt ([0xFE, 0, 0, 0, 0x10] @ rest) = Inr (0x10000000, rest)"
  by (simp add: ReadVarInt_def readN_def)

lemma varint_three: "ReadVarInt ([3] @ rest) = Inr (3, rest)"
  by (simp add: ReadVarInt_def)

lemma oneByteTx_two_of_three:
  "bufferAfter oneByteTx (unat (2 :: u64)) [9, 9, 9] = [9]
   \<and> (\<forall>i < unat (2 :: u64). fst (oneByteTx (bufferAfter oneByteTx i [9, 9, 9]) NilTx) = None)"
proof -
  have u: "unat (2 :: u64) = Suc (Suc 0)" by simp
  show ?thesis
    unfolding u by (simp add: less_Suc_eq bufferAfter_def oneByteTx_def all_conj_distrib)
qed

lemma oneByteTx_three_of_two:
  "(2 :: nat) < unat (3 :: u64)
   \<and> bufferAfter oneByteTx (Suc 2) [9, 9] = []
   \<and> (\<forall>i < (2 :: nat). fst (oneByteTx (bufferAfter oneByteTx i [9, 9]) NilTx) = None)
   \<and> fst (oneByteTx (bufferAfter oneByteTx 2 [9, 9]) NilTx) = Some EOF"
proof -
  have u: "(2 :: nat) = Suc (Suc 0)" by simp
  show ?thesis
    unfolding u by (simp add: less_Suc_eq bufferAfter_def oneByteTx_def all_conj_distrib)
qed

theorem unmarshalBlockTxs_count_bound_witness:
  "unmarshalBlockTxs (headerBytes0 @ [0xFE, 0, 0, 0, 0x10] @ [9, 9]) block0 oneByteTx
       = (Some ''block tx count too large'', [9, 9], block0\<lparr>Header := header0\<rparr>, 0)
   \<and> unmarshalBlockTxs (headerBytes0 @ [2] @ [9, 9, 9]) block0 oneByteTx
       = (None, [9], block0\<lparr>Header := header0, Txs := replicate 2 NilTx\<rparr>, 2)
   \<and> unmarshalBlockTxs (headerBytes0 @ [3] @ [9, 9]) block0 oneByteTx
       = (Some EOF, [], block0\<lparr>Header := header0, Txs := replicate 3 NilTx\<rparr>, 3)"
proof -
  have big: "unat (0x10000000 :: u64) > MaxInt32 div 8"
    by (simp add: MaxInt32_def)
  have two: "unat (2 :: u64) \<le> MaxInt32 div 8"
    by (simp add: MaxInt32_def)
  have three: "unat (3 :: u64) \<le> MaxInt32 div 8"
    by (simp add: MaxInt32_def)
  note h1 = header0_decodes [of "[0xFE, 0, 0, 0, 0x10] @ [9, 9]"]
  note v1 = varint_large [of "[9, 9]"]
  note h2 = header0_decodes [of "[2] @ [9, 9, 9]"]
  note v2 = varint_small [of "[9, 9, 9]"]
  note h3 = header0_decodes [of "[3] @ [9, 9]"]
  note v3 = varint_three [of "[9, 9]"]
  from unmarshalBlockTxs_count_bound [OF h1 v1, of oneByteTx] big
  have a: "unmarshalBlockTxs (headerBytes0 @ [0xFE, 0, 0, 0, 0x10] @ [9, 9]) block0 oneByteTx
       = (Some ''block tx count too large'', [9, 9], block0\<lparr>Header := header0\<rparr>, 0)"
    by blast
  from unmarshalBlockTxs_count_bound [OF h2 v2, of oneByteTx] two oneByteTx_two_of_three
  have b: "unmarshalBlockTxs (headerBytes0 @ [2] @ [9, 9, 9]) block0 oneByteTx
       = (None, [9], block0\<lparr>Header := header0, Txs := replicate 2 NilTx\<rparr>, 2)"
    by simp
  from unmarshalBlockTxs_count_bound [OF h3 v3, of oneByteTx 2 EOF] three oneByteTx_three_of_two
  have c: "unmarshalBlockTxs (headerBytes0 @ [3] @ [9, 9]) block0 oneByteTx
       = (Some EOF, [], block0\<lparr>Header := header0, Txs := replicate 3 NilTx\<rparr>, 3)"
    by simp
  from a b c show ?thesis by blast
qed


section \<open>Properties of the chain\<close>


lemmas chain0_defs = chainEnv0_def chain0_def tip10_def block11_def staleBlock11_def
  uncertifiedBlock11_def cert0_def checkBlockHeader_def legacyEnv0_def message_New_def

lemma checkBlockHeader_same_timestamp:
  "Timestamp (Header blk) = Timestamp (Header prev) \<Longrightarrow> \<exists>e. fst (checkBlockHeader lenv prev blk) = Some e"
  by (simp add: checkBlockHeader_def)

lemma AcceptBlock_sanity_fail:
  "SanityCheckBlock env (tip c) blk = Some e \<Longrightarrow>
     AcceptBlock env c blk = (Err e, record_call (VerifierSanityCheckBlock (tip c) blk) c)"
  by (simp add: AcceptBlock_def Let_def)

text \<open>
  C4. A block whose header fails the sanity check against the tip is rejected:
  \<open>AcceptBlock\<close> returns the error of the check, and the chain is as it was but for
  the recorded call of the verifier, so the tip, the provisioners, the loader and the
  sync counter are unchanged, nothing is published and the counter is not decremented.
  In particular, when the verifier is the header check, a block at the height after the
  tip with the timestamp of the tip is rejected so.
\<close>

theorem AcceptBlock_rejects_insane_block:
  "(SanityCheckBlock env (tip c) blk = Some e \<longrightarrow>
      AcceptBlock env c blk = (Err e, c\<lparr>trace := trace c @ [VerifierSanityCheckBlock (tip c) blk]\<rparr>))
   \<and> (SanityCheckBlock env = (\<lambda>prev b. fst (checkBlockHeader lenv prev b))
        \<and> Height (Header blk) = Height (Header (tip c)) + 1
        \<and> Timestamp (Header blk) = Timestamp (Header (tip c)) \<longrightarrow>
      (\<exists>e'. AcceptBlock env c blk
            = (Err e', c\<lparr>trace := trace c @ [VerifierSanityCheckBlock (tip c) blk]\<rparr>)))"
proof (intro conjI impI)
  assume "SanityCheckBlock env (tip c) blk = Some e"
  then show "AcceptBlock env c blk = (Err e, c\<lparr>trace := trace c @ [VerifierSanityCheckBlock (tip c) blk]\<rparr>)"
    by (simp add: AcceptBlock_sanity_fail record_call_def)
next
  assume a: "SanityCheckBlock env = (\<lambda>prev b. fst (checkBlockHeader lenv prev b))
        \<and> Height (Header blk) = Height (Header (tip c)) + 1
        \<and> Timestamp (Header blk) = Timestamp (Header (tip c))"
  then obtain e' where "fst (checkBlockHeader lenv (tip c) blk) = Some e'"
    using checkBlockHeader_same_timestamp [of blk "tip c" lenv] by blast
  with a have "SanityCheckBlock env (tip c) blk = Some e'" by simp
  then show "\<exists>e'. AcceptBlock env c blk
            = (Err e', c\<lparr>trace := trace c @ [VerifierSanityCheckBlock (tip c) blk]\<rparr>)"
    by (auto simp: AcceptBlock_sanity_fail record_call_def)
qed

theorem AcceptBlock_rejects_insane_block_witness:
  "SanityCheckBlock chainEnv0 = (\<lambda>prev b. fst (checkBlockHeader legacyEnv0 prev b))
   \<and> Height (Header staleBlock11) = Height (Header (tip chain0)) + 1
   \<and> Timestamp (Header staleBlock11) = Timestamp (Header (tip chain0))
   \<and> SanityCheckBlock chainEnv0 (tip chain0) staleBlock11
        = Some ''current timestamp is less than the previous timestamp''
   \<and> AcceptBlock chainEnv0 chain0 staleBlock11
        = (Err ''current timestamp is less than the previous timestamp'',
           chain0\<lparr>trace := [VerifierSanityCheckBlock tip10 staleBlock11]\<rparr>)"
proof -
  have v: "SanityCheckBlock chainEnv0 = (\<lambda>prev b. fst (checkBlockHeader legacyEnv0 prev b))"
    by (simp add: chainEnv0_def)
  have h: "Height (Header staleBlock11) = Height (Header (tip chain0)) + 1"
    by (simp add: chain0_defs)
  have t: "Timestamp (Header staleBlock11) = Timestamp (Header (tip chain0))"
    by (simp add: chain0_defs)
  have s: "SanityCheckBlock chainEnv0 (tip chain0) staleBlock11
        = Some ''current timestamp is less than the previous timestamp''"
    by (simp add: chain0_defs)
  have c: "tip chain0 = tip10" "trace chain0 = []"
    by (simp_all add: chain0_def)
  from AcceptBlock_rejects_insane_block
         [of chainEnv0 chain0 staleBlock11
             "''current timestamp is less than the previous timestamp''" legacyEnv0]
       v h t s c
  show ?thesis by simp
qed











text \<open>
  C7. \<open>RebuildChain\<close> returns an error only when clearing the storage fails, and then
  that error. After a successful clear, a failure to load the tip, of the sanity check or
  of the \<open>ClearWalletDatabase\<close> request is a panic. Once the sanity check has passed,
  the provisioners are the fresh set and the last certificate the empty one when the
  \<open>ClearWalletDatabase\<close> request is made, the last call of the rebuild, whether it
  then fails or not.
\<close>

theorem RebuildChain_errors:
  "(fst (RebuildChain env c) = Err e \<longrightarrow> fst (Clear env (loader c)) = Some e)
   \<and> (fst (Clear env (loader c)) = Some e \<longrightarrow> fst (RebuildChain env c) = Err e)
   \<and> (Clear env (loader c) = (None, l') \<longrightarrow>
        (LoadTip env l' = Inl e \<longrightarrow> fst (RebuildChain env c) = Panic e)
      \<and> (LoadTip env l' = Inr t \<and> PerformSanityCheck env l' 0 (SanityCheckHeight env) 0 = Some e \<longrightarrow>
           fst (RebuildChain env c) = Panic e)
      \<and> (LoadTip env l' = Inr t \<and> PerformSanityCheck env l' 0 (SanityCheckHeight env) 0 = None \<longrightarrow>
           snd (RebuildChain env c)
             = c\<lparr>p := NewProvisioners, lastCertificate := Some EmptyCertificate, tip := t,
                  loader := l',
                  trace := trace c @
                    [Publish StopConsensus (message_New StopConsensus NilPayload),
                     LoaderClear, LoaderLoadTip, TipSet t,
                     VerifierPerformSanityCheck 0 (SanityCheckHeight env) 0,
                     Call ClearWalletDatabase]\<rparr>
         \<and> (rpcCall env ClearWalletDatabase = Some e \<longrightarrow> fst (RebuildChain env c) = Panic e)
         \<and> (rpcCall env ClearWalletDatabase = None \<longrightarrow>
              fst (RebuildChain env c) = Ok ''Blockchain deleted. Syncing from scratch...'')))"
  by (cases "Clear env (loader c)")
     (auto simp: RebuildChain_def resetState_def record_call_def Let_def
           split: option.splits sum.splits)

theorem RebuildChain_errors_witness:
  "fst (Clear (chainEnv0\<lparr>Clear := (\<lambda>l. (Some ''clear failed'', l))\<rparr>) (loader chain0))
      = Some ''clear failed''
   \<and> fst (RebuildChain (chainEnv0\<lparr>Clear := (\<lambda>l. (Some ''clear failed'', l))\<rparr>) chain0)
      = Err ''clear failed''
   \<and> Clear chainEnv0 (loader chain0) = (None, [])
   \<and> fst (RebuildChain (chainEnv0\<lparr>LoadTip := (\<lambda>l. Inl ''no tip'')\<rparr>) chain0) = Panic ''no tip''
   \<and> fst (RebuildChain (chainEnv0\<lparr>PerformSanityCheck := (\<lambda>l a b c. Some ''insane'')\<rparr>) chain0)
      = Panic ''insane''
   \<and> fst (RebuildChain (chainEnv0\<lparr>rpcCall := (\<lambda>t. Some ''timeout'')\<rparr>) chain0) = Panic ''timeout''
   \<and> p (snd (RebuildChain (chainEnv0\<lparr>rpcCall := (\<lambda>t. Some ''timeout'')\<rparr>)
             (chain0\<lparr>p := provisioners1\<rparr>))) = NewProvisioners
   \<and> lastCertificate (snd (RebuildChain (chainEnv0\<lparr>rpcCall := (\<lambda>t. Some ''timeout'')\<rparr>)
             (chain0\<lparr>p := provisioners1\<rparr>))) = Some EmptyCertificate
   \<and> RebuildChain chainEnv0 (chain0\<lparr>p := provisioners1\<rparr>)
      = (Ok ''Blockchain deleted. Syncing from scratch...'',
         chain0\<lparr>p := NewProvisioners, lastCertificate := Some EmptyCertificate, tip := genesis0,
                loader := [],
                trace := [Publish StopConsensus (message_New StopConsensus NilPayload),
                          LoaderClear, LoaderLoadTip, TipSet genesis0,
                          VerifierPerformSanityCheck 0 10 0, Call ClearWalletDatabase]\<rparr>)"
proof -
  let ?e1 = "chainEnv0\<lparr>Clear := (\<lambda>l. (Some ''clear failed'', l))\<rparr>"
  let ?e2 = "chainEnv0\<lparr>LoadTip := (\<lambda>l. Inl ''no tip'')\<rparr>"
  let ?e3 = "chainEnv0\<lparr>PerformSanityCheck := (\<lambda>l a b c. Some ''insane'')\<rparr>"
  let ?e4 = "chainEnv0\<lparr>rpcCall := (\<lambda>t. Some ''timeout'')\<rparr>"
  let ?c = "chain0\<lparr>p := provisioners1\<rparr>"
  have c1: "fst (Clear ?e1 (loader chain0)) = Some ''clear failed''" by simp
  have c0: "Clear chainEnv0 (loader chain0) = (None, [])" by (simp add: chainEnv0_def)
  have c2: "Clear ?e2 (loader chain0) = (None, [])" by (simp add: chainEnv0_def)
  have c3: "Clear ?e3 (loader chain0) = (None, [])" by (simp add: chainEnv0_def)
  have c4: "Clear ?e4 (loader ?c) = (None, [])" "Clear ?e4 (loader chain0) = (None, [])"
    by (simp_all add: chainEnv0_def)
  have c5: "Clear chainEnv0 (loader ?c) = (None, [])" by (simp add: chainEnv0_def)
  have l2: "LoadTip ?e2 [] = Inl ''no tip''" by simp
  have l: "LoadTip chainEnv0 [] = Inr genesis0" "LoadTip ?e3 [] = Inr genesis0"
    "LoadTip ?e4 [] = Inr genesis0"
    by (simp_all add: chainEnv0_def)
  have s3: "PerformSanityCheck ?e3 [] 0 (SanityCheckHeight ?e3) 0 = Some ''insane''" by simp
  have s: "PerformSanityCheck chainEnv0 [] 0 (SanityCheckHeight chainEnv0) 0 = None"
    "PerformSanityCheck ?e4 [] 0 (SanityCheckHeight ?e4) 0 = None"
    by (simp_all add: chainEnv0_def)
  have r4: "rpcCall ?e4 ClearWalletDatabase = Some ''timeout''" by simp
  have r: "rpcCall chainEnv0 ClearWalletDatabase = None" by (simp add: chainEnv0_def)
  have h: "SanityCheckHeight chainEnv0 = 10" by (simp add: chainEnv0_def)
  from RebuildChain_errors [of ?e1 chain0 "''clear failed''"] c1
  have p1: "fst (RebuildChain ?e1 chain0) = Err ''clear failed''" by blast
  from RebuildChain_errors [of ?e2 chain0 "''no tip''" "[]"] c2 l2
  have p2: "fst (RebuildChain ?e2 chain0) = Panic ''no tip''" by blast
  from RebuildChain_errors [of ?e3 chain0 "''insane''" "[]" genesis0] c3 l s3
  have p3: "fst (RebuildChain ?e3 chain0) = Panic ''insane''" by blast
  from RebuildChain_errors [of ?e4 chain0 "''timeout''" "[]" genesis0] c4 l s r4
  have p4: "fst (RebuildChain ?e4 chain0) = Panic ''timeout''" by blast
  from RebuildChain_errors [of ?e4 ?c "''timeout''" "[]" genesis0] c4 l s r4
  have p5: "p (snd (RebuildChain ?e4 ?c)) = NewProvisioners
      \<and> lastCertificate (snd (RebuildChain ?e4 ?c)) = Some EmptyCertificate"
    by simp
  from RebuildChain_errors [of chainEnv0 ?c "''x''" "[]" genesis0] c5 l s r h
  have p6: "fst (RebuildChain chainEnv0 ?c) = Ok ''Blockchain deleted. Syncing from scratch...''
     \<and> snd (RebuildChain chainEnv0 ?c)
      = chain0\<lparr>p := NewProvisioners, lastCertificate := Some EmptyCertificate, tip := genesis0,
                loader := [],
                trace := [Publish StopConsensus (message_New StopConsensus NilPayload),
                          LoaderClear, LoaderLoadTip, TipSet genesis0,
                          VerifierPerformSanityCheck 0 10 0, Call ClearWalletDatabase]\<rparr>"
    by (simp add: chain0_def)
  then have p7: "RebuildChain chainEnv0 ?c
      = (Ok ''Blockchain deleted. Syncing from scratch...'',
         chain0\<lparr>p := NewProvisioners, lastCertificate := Some EmptyCertificate, tip := genesis0,
                loader := [],
                trace := [Publish StopConsensus (message_New StopConsensus NilPayload),
                          LoaderClear, LoaderLoadTip, TipSet genesis0,
                          VerifierPerformSanityCheck 0 10 0, Call ClearWalletDatabase]\<rparr>)"
    by (simp add: prod_eq_iff)
  from c1 c0 p1 p2 p3 p4 p5 p7 show ?thesis by blast
qed

text \<open>
  C8. A chain constructed over a loader whose tip is at height 0 has the empty
  certificate as last certificate and that block as tip, and on the initialization
  message it publishes one round update, for round 1, with the seed and the hash of the
  tip and the provisioners of the chain.
\<close>

theorem New_genesis_boot:
  assumes "New env l cnt = Inr c" and "LoadTip env l = Inr g" and "Height (Header g) = 0"
  shows "lastCertificate c = Some EmptyCertificate
    \<and> tip c = g
    \<and> Height (Header (tip c)) = 0
    \<and> onInitialization c m =
        (Ok (), c\<lparr>trace := trace c @
           [Publish RoundUpdateTopic
              (message_New RoundUpdateTopic
                 (RoundUpdatePayload \<lparr>Round = 1, P = p c, Seed = Seed (Header g),
                                      Hash = Hash (Header g)\<rparr>))]\<rparr>)"
  using assms
  by (auto simp: New_def Let_def onInitialization_def sendRoundUpdate_def getRoundUpdate_def
        roundUpdateMsg_def record_call_def
      split: option.splits sum.splits if_splits)

theorem New_genesis_boot_witness:
  "LoadTip chainEnv0 [] = Inr genesis0
   \<and> Height (Header genesis0) = 0
   \<and> New chainEnv0 [] 0
       = Inr \<lparr>p = NewProvisioners, counter = 0, loader = [], tip = genesis0,
              lastCertificate = Some EmptyCertificate, lastCommittee = [], highestSeen = 0,
              trace = [Register VerifyCandidateBlock, Register GetLastCertificate,
                       Register GetLastCommittee, LoaderLoadTip,
                       Subscribe BlockTopic, Subscribe Initialization],
              spawned = []\<rparr>
   \<and> fst (onInitialization (projr (New chainEnv0 [] 0)) (message_New Initialization EMPTY)) = Ok ()
   \<and> trace (snd (onInitialization (projr (New chainEnv0 [] 0)) (message_New Initialization EMPTY)))
       = [Register VerifyCandidateBlock, Register GetLastCertificate,
          Register GetLastCommittee, LoaderLoadTip,
          Subscribe BlockTopic, Subscribe Initialization,
          Publish RoundUpdateTopic
            (message_New RoundUpdateTopic
               (RoundUpdatePayload \<lparr>Round = 1, P = NewProvisioners, Seed = [3], Hash = [4]\<rparr>))]"
proof -
  let ?c = "\<lparr>p = NewProvisioners, counter = 0 :: nat, loader = [] :: Block list, tip = genesis0,
              lastCertificate = Some EmptyCertificate, lastCommittee = [], highestSeen = 0,
              trace = [Register VerifyCandidateBlock, Register GetLastCertificate,
                       Register GetLastCommittee, LoaderLoadTip,
                       Subscribe BlockTopic, Subscribe Initialization],
              spawned = []\<rparr>"
  have l: "LoadTip chainEnv0 [] = Inr genesis0" by (simp add: chainEnv0_def)
  have h: "Height (Header genesis0) = 0" by (simp add: genesis0_def)
  have n: "New chainEnv0 [] 0 = Inr ?c"
    by (simp add: New_def chainEnv0_def genesis0_def)
  have g: "Seed (Header genesis0) = [3]" "Hash (Header genesis0) = [4]"
    by (simp_all add: genesis0_def)
  from New_genesis_boot [OF n l h, of "message_New Initialization EMPTY"] l h n g
  show ?thesis by simp
qed


end
